theory Spec2Isabelle
  imports Complex_Main "HOL-Library.AList"
begin

section \<open>Common values\<close>

text \<open>
  JSON values as the handlers build them for \<^verbatim>\<open>res.json\<close>. An object is the list of its
  keys with their values; a key whose JavaScript value is \<^verbatim>\<open>undefined\<close> is left out, as
  \<^verbatim>\<open>JSON.stringify\<close> does.
\<close>

datatype json = JStr string | JNum int | JBool bool | JObj "(string \<times> json) list"

datatype response = Response (status: nat) (body: json)

text \<open>The outcome of an Express middleware: it calls \<^verbatim>\<open>next()\<close> or it answers itself.\<close>

datatype gate = Next | Respond response

datatype js_error = TypeError

text \<open>
  The part of an incoming request that the two gates read. \<open>None\<close> is JavaScript's
  \<^verbatim>\<open>undefined\<close>: a header that is absent, a \<^verbatim>\<open>req.connection\<close> that is absent (outer option) or a
  socket without \<^verbatim>\<open>remoteAddress\<close> (inner option).
\<close>

record request =
  x_forwarded_for :: "string option"
  x_real_ip :: "string option"
  connection :: "string option option"

text \<open>JavaScript truthiness of a string-or-undefined value: the empty string is falsy.\<close>

definition truthy :: "string option \<Rightarrow> bool" where
  "truthy v = (case v of None \<Rightarrow> False | Some s \<Rightarrow> s \<noteq> [])"

text \<open>Portuguese letters of the source's messages, as their UTF-8 bytes.\<close>

definition a_acute :: string where "a_acute = [CHR 0xC3, CHR 0xA1]"
definition a_tilde :: string where "a_tilde = [CHR 0xC3, CHR 0xA3]"
definition c_cedil :: string where "c_cedil = [CHR 0xC3, CHR 0xA7]"
definition e_acute :: string where "e_acute = [CHR 0xC3, CHR 0xA9]"
definition i_acute :: string where "i_acute = [CHR 0xC3, CHR 0xAD]"
definition o_tilde :: string where "o_tilde = [CHR 0xC3, CHR 0xB5]"

section \<open>The server: counters, difficulty and the realtime channel\<close>

text \<open>
  The three module-level variables \<^verbatim>\<open>activeUsers\<close>, \<^verbatim>\<open>activatedEnigmas\<close>, \<^verbatim>\<open>solvedEnigmas\<close>.
  The same shape is the payload of \<^verbatim>\<open>stats_update\<close>. JavaScript numbers are modelled as
  unbounded integers (exact below \<open>2 ^ 53\<close>).
\<close>

record counters =
  activeUsers :: int
  activatedEnigmas :: int
  solvedEnigmas :: int

text \<open>
  The difficulty computation, written inline twice in the source with the same text: in the
  \<^verbatim>\<open>/api/solve-enigma\<close> handler and in the \<^verbatim>\<open>enigma_solved\<close> socket handler.
  \<^verbatim>\<open>let newDifficulty = 1; if (solved >= 1000) newDifficulty = 3; else if (solved >= 100) newDifficulty = 2;\<close>
\<close>

definition newDifficulty :: "int \<Rightarrow> nat" where
  "newDifficulty solved = (if solved \<ge> 1000 then 3 else if solved \<ge> 100 then 2 else 1)"

text \<open>
  The \<^verbatim>\<open>stats\<close> node of the Firebase database. Each child may be absent (\<open>None\<close>); a node
  with no child at all is Firebase's \<^verbatim>\<open>null\<close>.
\<close>

record stats =
  stat_activeUsers :: "int option"
  stat_activatedEnigmas :: "int option"
  stat_solvedEnigmas :: "int option"

definition null_stats :: stats where
  "null_stats = \<lparr>stat_activeUsers = None, stat_activatedEnigmas = None, stat_solvedEnigmas = None\<rparr>"

definition zero_stats :: stats where
  "zero_stats = \<lparr>stat_activeUsers = Some 0, stat_activatedEnigmas = Some 0, stat_solvedEnigmas = Some 0\<rparr>"

text \<open>\<^verbatim>\<open>x || 0\<close> on a number-or-undefined value.\<close>

definition or0 :: "int option \<Rightarrow> int" where
  "or0 v = (case v of None \<Rightarrow> 0 | Some n \<Rightarrow> n)"

text \<open>\<^verbatim>\<open>stats = stats || { activeUsers: 0, activatedEnigmas: 0, solvedEnigmas: 0 }\<close>\<close>

definition or_zero_stats :: "stats \<Rightarrow> stats" where
  "or_zero_stats st = (if st = null_stats then zero_stats else st)"

text \<open>The three transaction bodies of the HTTP handlers.\<close>

definition txn_activeUsers :: "stats \<Rightarrow> stats" where
  "txn_activeUsers st =
     (let s = or_zero_stats st in s\<lparr>stat_activeUsers := Some (or0 (stat_activeUsers s) + 1)\<rparr>)"

definition txn_activatedEnigmas :: "stats \<Rightarrow> stats" where
  "txn_activatedEnigmas st =
     (let s = or_zero_stats st in s\<lparr>stat_activatedEnigmas := Some (or0 (stat_activatedEnigmas s) + 1)\<rparr>)"

definition txn_solvedEnigmas :: "stats \<Rightarrow> stats" where
  "txn_solvedEnigmas st =
     (let s = or_zero_stats st in s\<lparr>stat_solvedEnigmas := Some (or0 (stat_solvedEnigmas s) + 1)\<rparr>)"

text \<open>
  A node under \<^verbatim>\<open>users/\<close>. \<open>enigmaSolved\<close> maps a level to its \<^verbatim>\<open>solutionTime_<level>\<close>; the
  level is in its domain exactly when \<^verbatim>\<open>enigmaSolved_<level>\<close> is set.
\<close>

record user =
  user_id :: string
  fingerprint :: string
  createdAt :: int
  lastSeen :: int
  enigmaActivated :: bool
  activationTime :: "int option"
  enigmaSolved :: "(string \<times> int) list"

record database =
  users :: "(string \<times> user) list"
  db_stats :: stats

text \<open>The whole mutable state of the server process and its backing store.\<close>

record server =
  vars :: counters
  db :: database

text \<open>What \<^verbatim>\<open>io.emit\<close> sends: one broadcast to all connected sockets per call.\<close>

datatype emitted = stats_update counters | difficulty_change nat

datatype socket_event = ev_connection | ev_disconnect | ev_enigma_activated | ev_enigma_solved

text \<open>
  The \<^verbatim>\<open>io.on('connection')\<close> callback and the three \<^verbatim>\<open>socket.on\<close> callbacks registered in
  it. Each returns the new state and the broadcasts in the order they are emitted.
  \<^verbatim>\<open>statsRef.update\<close> is a write of one child of \<^verbatim>\<open>stats\<close>.
\<close>

fun on_socket :: "server \<Rightarrow> socket_event \<Rightarrow> server \<times> emitted list" where
  "on_socket s ev_connection =
     (let c = (vars s)\<lparr>activeUsers := activeUsers (vars s) + 1\<rparr>
      in (s\<lparr>vars := c\<rparr>, [stats_update c]))"
| "on_socket s ev_disconnect =
     (let c = (vars s)\<lparr>activeUsers := max 0 (activeUsers (vars s) - 1)\<rparr>
      in (s\<lparr>vars := c\<rparr>, [stats_update c]))"
| "on_socket s ev_enigma_activated =
     (let c = (vars s)\<lparr>activatedEnigmas := activatedEnigmas (vars s) + 1\<rparr>;
          d = (db s)\<lparr>db_stats := (db_stats (db s))\<lparr>stat_activatedEnigmas := Some (activatedEnigmas c)\<rparr>\<rparr>
      in (s\<lparr>vars := c, db := d\<rparr>, [stats_update c]))"
| "on_socket s ev_enigma_solved =
     (let c = (vars s)\<lparr>solvedEnigmas := solvedEnigmas (vars s) + 1\<rparr>;
          d = (db s)\<lparr>db_stats := (db_stats (db s))\<lparr>stat_solvedEnigmas := Some (solvedEnigmas c)\<rparr>\<rparr>;
          level = newDifficulty (solvedEnigmas c)
      in (s\<lparr>vars := c, db := d\<rparr>,
          stats_update c # (if level > 1 then [difficulty_change level] else [])))"

text \<open>
  \<^verbatim>\<open>initializeCounters\<close>, awaited in the callback of \<^verbatim>\<open>server.listen\<close>, so after the server
  has begun to accept connections. It reads \<^verbatim>\<open>stats\<close>; when the node exists it overwrites the
  three variables with \<^verbatim>\<open>stats.x || 0\<close>, otherwise it writes the zero state to the database.
  \<open>fault = Some 1\<close> makes the read reject and \<open>fault = Some 2\<close> the write; the \<^verbatim>\<open>catch\<close> logs
  the error. Nothing is broadcast.
\<close>

definition initializeCounters :: "nat option \<Rightarrow> server \<Rightarrow> server" where
  "initializeCounters fault s =
     (if fault = Some 1 then s
      else if db_stats (db s) \<noteq> null_stats
        then s\<lparr>vars := \<lparr>activeUsers = or0 (stat_activeUsers (db_stats (db s))),
                        activatedEnigmas = or0 (stat_activatedEnigmas (db_stats (db s))),
                        solvedEnigmas = or0 (stat_solvedEnigmas (db_stats (db s)))\<rparr>\<rparr>
      else if fault = Some 2 then s
      else s\<lparr>db := (db s)\<lparr>db_stats := zero_stats\<rparr>\<rparr>)"

text \<open>
  What writes the three variables of a running server: a socket event is handled, or the
  start-up read of \<^verbatim>\<open>initializeCounters\<close> completes (with its fault, if any). The HTTP
  handlers never write the variables.
\<close>

datatype step = socket socket_event | startup "nat option"

fun do_step :: "server \<Rightarrow> step \<Rightarrow> server \<times> emitted list" where
  "do_step s (socket e) = on_socket s e"
| "do_step s (startup fault) = (initializeCounters fault s, [])"

text \<open>A sequence of steps, handled one after the other (callbacks run to completion).\<close>

fun run :: "server \<Rightarrow> step list \<Rightarrow> server \<times> emitted list" where
  "run s [] = (s, [])"
| "run s (e # es) =
     (case do_step s e of (s1, out1) \<Rightarrow>
        (case run s1 es of (s2, out2) \<Rightarrow> (s2, out1 @ out2)))"

text \<open>The state at module load: all three variables are 0.\<close>

definition initial_vars :: counters where
  "initial_vars = \<lparr>activeUsers = 0, activatedEnigmas = 0, solvedEnigmas = 0\<rparr>"

subsection \<open>The gate mounted on the HTTP routes\<close>

text \<open>
  \<^verbatim>\<open>checkVpn\<close> of the server. The body of its \<^verbatim>\<open>try\<close>: the address is read (and not used),
  then one \<^verbatim>\<open>Math.random()\<close> draw decides. Reading \<^verbatim>\<open>req.connection.remoteAddress\<close> throws when
  the header is falsy and \<^verbatim>\<open>req.connection\<close> is undefined.
\<close>

definition checkVpn_try :: "request \<Rightarrow> real \<Rightarrow> js_error + gate" where
  "checkVpn_try req draw =
     (if \<not> truthy (x_forwarded_for req) \<and> connection req = None then Inl TypeError
      else if draw < 0.05
        then Inr (Respond (Response 403
               (JObj [(''error'', JStr ''VPN ou Tor detectado. Acesso bloqueado.'')])))
        else Inr Next)"

text \<open>The \<^verbatim>\<open>catch\<close>: on any error, \<^verbatim>\<open>next()\<close>.\<close>

definition checkVpn :: "request \<Rightarrow> real \<Rightarrow> gate" where
  "checkVpn req draw = (case checkVpn_try req draw of Inl e \<Rightarrow> Next | Inr g \<Rightarrow> g)"

subsection \<open>The HTTP handlers\<close>

text \<open>
  Each handler awaits database calls in a fixed order; \<open>fault = Some k\<close> makes the \<open>k\<close>-th
  awaited call of the handler reject, which the handler's \<^verbatim>\<open>catch\<close> turns into a 500. Writes
  made before the rejected call stay. \<open>ts\<close> is the server timestamp. A handler is modelled as
  one step. The third component lists the broadcasts of the handler: no HTTP handler calls
  \<^verbatim>\<open>io.emit\<close>.
\<close>

definition error_body :: "string \<Rightarrow> json" where
  "error_body msg = JObj [(''error'', JStr msg)]"

definition not_found :: response where
  "not_found = Response 404 (error_body (''Usu'' @ a_acute @ ''rio n'' @ a_tilde @ ''o encontrado''))"

definition stats_json :: "stats \<Rightarrow> json" where
  "stats_json st = JObj
     ((case stat_activeUsers st of None \<Rightarrow> [] | Some n \<Rightarrow> [(''activeUsers'', JNum n)]) @
      (case stat_activatedEnigmas st of None \<Rightarrow> [] | Some n \<Rightarrow> [(''activatedEnigmas'', JNum n)]) @
      (case stat_solvedEnigmas st of None \<Rightarrow> [] | Some n \<Rightarrow> [(''solvedEnigmas'', JNum n)]))"

definition counters_json :: "counters \<Rightarrow> json" where
  "counters_json c = JObj
     [(''activeUsers'', JNum (activeUsers c)),
      (''activatedEnigmas'', JNum (activatedEnigmas c)),
      (''solvedEnigmas'', JNum (solvedEnigmas c))]"

definition get_stats :: "nat option \<Rightarrow> server \<Rightarrow> server \<times> response \<times> emitted list" where
  "get_stats fault s =
     (if fault = Some 1
        then (s, Response 500 (error_body (''Erro ao buscar estat'' @ i_acute @ ''sticas'')), [])
      else if db_stats (db s) = null_stats
        then (s, Response 200 (counters_json (vars s)), [])
        else (s, Response 200 (stats_json (db_stats (db s))), []))"

text \<open>
  \<^verbatim>\<open>/api/register-user\<close>. \<open>userId\<close> is the fresh \<^verbatim>\<open>uuidv4()\<close>. The query by fingerprint returns
  the users with that fingerprint; the handler takes the first of them.
\<close>

definition register_user ::
  "nat option \<Rightarrow> int \<Rightarrow> server \<Rightarrow> string \<Rightarrow> string \<Rightarrow> server \<times> response \<times> emitted list" where
  "register_user fault ts s deviceFingerprint userId =
     (let failed = Response 500 (error_body (''Erro ao registrar usu'' @ a_acute @ ''rio''))
      in if fault = Some 1 then (s, failed, [])
      else case find (\<lambda>(k, u). fingerprint u = deviceFingerprint) (users (db s)) of
        Some (k, userData) \<Rightarrow>
          (s, Response 200 (JObj [(''userId'', JStr (user_id userData)), (''isNew'', JBool False)]), [])
      | None \<Rightarrow>
          if fault = Some 2 then (s, failed, [])
          else
            let u = \<lparr>user_id = userId, fingerprint = deviceFingerprint, createdAt = ts,
                     lastSeen = ts, enigmaActivated = False, activationTime = None,
                     enigmaSolved = []\<rparr>;
                s1 = s\<lparr>db := (db s)\<lparr>users := AList.update userId u (users (db s))\<rparr>\<rparr>
            in if fault = Some 3 then (s1, failed, [])
               else
                 (s1\<lparr>db := (db s1)\<lparr>db_stats := txn_activeUsers (db_stats (db s1))\<rparr>\<rparr>,
                  Response 200 (JObj [(''userId'', JStr userId), (''isNew'', JBool True)]), []))"

definition activate_enigma ::
  "nat option \<Rightarrow> int \<Rightarrow> server \<Rightarrow> string \<Rightarrow> server \<times> response \<times> emitted list" where
  "activate_enigma fault ts s userId =
     (let failed = Response 500 (error_body ''Erro ao ativar enigma'')
      in if fault = Some 1 then (s, failed, [])
      else case map_of (users (db s)) userId of
        None \<Rightarrow> (s, not_found, [])
      | Some u \<Rightarrow>
          if fault = Some 2 then (s, failed, [])
          else
            let u1 = u\<lparr>enigmaActivated := True, activationTime := Some ts\<rparr>;
                s1 = s\<lparr>db := (db s)\<lparr>users := AList.update userId u1 (users (db s))\<rparr>\<rparr>
            in if fault = Some 3 then (s1, failed, [])
               else
                 (s1\<lparr>db := (db s1)\<lparr>db_stats := txn_activatedEnigmas (db_stats (db s1))\<rparr>\<rparr>,
                  Response 200 (JObj [(''success'', JBool True)]), []))"

text \<open>
  \<^verbatim>\<open>/api/solve-enigma\<close>. After the transaction the handler reads \<^verbatim>\<open>stats\<close> back and computes
  the difficulty from its \<^verbatim>\<open>solvedEnigmas\<close>; an absent value fails both comparisons, which
  leaves \<^verbatim>\<open>newDifficulty\<close> at 1.
\<close>

definition solve_enigma ::
  "nat option \<Rightarrow> int \<Rightarrow> server \<Rightarrow> string \<Rightarrow> string \<Rightarrow> server \<times> response \<times> emitted list" where
  "solve_enigma fault ts s userId level =
     (let failed = Response 500 (error_body ''Erro ao resolver enigma'')
      in if fault = Some 1 then (s, failed, [])
      else case map_of (users (db s)) userId of
        None \<Rightarrow> (s, not_found, [])
      | Some u \<Rightarrow>
          if fault = Some 2 then (s, failed, [])
          else
            let u1 = u\<lparr>enigmaSolved := AList.update level ts (enigmaSolved u)\<rparr>;
                s1 = s\<lparr>db := (db s)\<lparr>users := AList.update userId u1 (users (db s))\<rparr>\<rparr>
            in if fault = Some 3 then (s1, failed, [])
               else
                 let s2 = s1\<lparr>db := (db s1)\<lparr>db_stats := txn_solvedEnigmas (db_stats (db s1))\<rparr>\<rparr>
                 in if fault = Some 4 then (s2, failed, [])
                    else
                      let level' = (case stat_solvedEnigmas (db_stats (db s2)) of
                                      None \<Rightarrow> 1 | Some n \<Rightarrow> newDifficulty n)
                      in (s2, Response 200 (JObj [(''success'', JBool True),
                                                   (''newDifficulty'', JNum (int level'))]), []))"

text \<open>A route is the gate followed by the handler: \<^verbatim>\<open>app.post(path, checkVpn, handler)\<close>.\<close>

definition gated ::
  "request \<Rightarrow> real \<Rightarrow> server \<Rightarrow> (server \<times> response \<times> emitted list) \<Rightarrow> server \<times> response \<times> emitted list" where
  "gated req draw s handler = (case checkVpn req draw of Respond r \<Rightarrow> (s, r, []) | Next \<Rightarrow> handler)"

definition api_stats :: "request \<Rightarrow> real \<Rightarrow> nat option \<Rightarrow> server \<Rightarrow> server \<times> response \<times> emitted list" where
  "api_stats req draw fault s = gated req draw s (get_stats fault s)"

definition api_register_user ::
  "request \<Rightarrow> real \<Rightarrow> nat option \<Rightarrow> int \<Rightarrow> server \<Rightarrow> string \<Rightarrow> string \<Rightarrow> server \<times> response \<times> emitted list" where
  "api_register_user req draw fault ts s deviceFingerprint userId =
     gated req draw s (register_user fault ts s deviceFingerprint userId)"

definition api_activate_enigma ::
  "request \<Rightarrow> real \<Rightarrow> nat option \<Rightarrow> int \<Rightarrow> server \<Rightarrow> string \<Rightarrow> server \<times> response \<times> emitted list" where
  "api_activate_enigma req draw fault ts s userId = gated req draw s (activate_enigma fault ts s userId)"

definition api_solve_enigma ::
  "request \<Rightarrow> real \<Rightarrow> nat option \<Rightarrow> int \<Rightarrow> server \<Rightarrow> string \<Rightarrow> string \<Rightarrow> server \<times> response \<times> emitted list" where
  "api_solve_enigma req draw fault ts s userId level =
     gated req draw s (solve_enigma fault ts s userId level)"

section \<open>VpnDetectionService\<close>

text \<open>
  The result object of \<^verbatim>\<open>checkIp\<close>. The fail-open object has only the four booleans; the
  other three keys are then absent. A boolean field holds the truthiness of the JavaScript
  value of its key, so a key that is \<^verbatim>\<open>undefined\<close> reads \<open>False\<close>: the code tests
  \<^verbatim>\<open>result.isVpn\<close> for truthiness, and copies the other three only into the 403 body of a
  result whose \<^verbatim>\<open>isVpn\<close> is truthy.
\<close>

record verdict =
  isVpn :: bool
  proxy :: bool
  vpn :: bool
  tor :: bool
  fraudScore :: "int option"
  country :: "string option"
  isp :: "string option"

record cache_entry =
  timestamp :: int
  data :: verdict

record service =
  apiKey :: "string option"
  enabled :: bool
  cache :: "string \<rightharpoonup> cache_entry"
  cacheExpiration :: int

text \<open>
  The constructor, from the two environment variables \<^verbatim>\<open>IPQUALITYSCORE_API_KEY\<close> and
  \<^verbatim>\<open>VPN_DETECTION_ENABLED\<close>. The cache is valid for one hour, in milliseconds.
\<close>

definition constructor :: "string option \<Rightarrow> string option \<Rightarrow> service" where
  "constructor key flag =
     \<lparr>apiKey = key, enabled = (flag = Some ''true''), cache = Map.empty, cacheExpiration = 3600000\<rparr>"

text \<open>\<^verbatim>\<open>{ isVpn: false, proxy: false, vpn: false, tor: false }\<close>\<close>

definition fail_open :: verdict where
  "fail_open = \<lparr>isVpn = False, proxy = False, vpn = False, tor = False,
                 fraudScore = None, country = None, isp = None\<rparr>"

text \<open>
  The provider's answer in its verdict schema, \<^verbatim>\<open>response.data\<close> with the six keys the code
  reads.
\<close>

record ipqs_data =
  data_proxy :: bool
  data_vpn :: bool
  data_tor :: bool
  fraud_score :: int
  country_code :: string
  ISP :: string

text \<open>
  The three ways the awaited \<^verbatim>\<open>axios.get\<close> and the reading of its response can end:
  \<^item> \<open>rejected\<close>: the call throws (timeout, network error, error status), or
    \<^verbatim>\<open>response.data\<close> is null or undefined, so that reading \<^verbatim>\<open>response.data.proxy\<close> throws;
  \<^item> \<open>resolved d\<close>: the call resolves with a body in the verdict schema;
  \<^item> \<open>resolved_without_verdict\<close>: the call resolves (HTTP 200) with a body that has none of
    the six keys, such as the provider's error body for an exhausted quota
    (\<^verbatim>\<open>{ success: false, message: ... }\<close>) or a body that is not the expected JSON object.
    Every key the code reads is then \<^verbatim>\<open>undefined\<close>.
  Bodies that carry some of the keys and lack others are not modelled.
\<close>

datatype provider_reply = rejected | resolved ipqs_data | resolved_without_verdict

text \<open>
  The result built from a body without the keys: \<^verbatim>\<open>undefined || undefined || undefined\<close> for
  \<^verbatim>\<open>isVpn\<close>, and \<^verbatim>\<open>undefined\<close> for the six others.
\<close>

definition undefined_result :: verdict where
  "undefined_result = \<lparr>isVpn = False, proxy = False, vpn = False, tor = False,
                        fraudScore = None, country = None, isp = None\<rparr>"

text \<open>The \<^verbatim>\<open>Math.random()\<close> draws of the simulated check, one per call site.\<close>

record draws =
  draw_isVpn :: real
  draw_proxy :: real
  draw_vpn :: real
  draw_tor :: real
  draw_score :: real

text \<open>
  What one \<^verbatim>\<open>checkIp\<close> call yields: its result, the service afterwards, and the addresses it
  asked the provider about, in order.
\<close>

record lookup =
  result :: verdict
  after :: service
  calls :: "string list"

text \<open>\<^verbatim>\<open>this.apiKey && this.apiKey !== 'your_api_key_here'\<close>\<close>

definition has_real_key :: "service \<Rightarrow> bool" where
  "has_real_key svc = (truthy (apiKey svc) \<and> apiKey svc \<noteq> Some ''your_api_key_here'')"

text \<open>
  The \<^verbatim>\<open>try\<close> block of \<^verbatim>\<open>checkIp\<close> with its \<^verbatim>\<open>catch\<close>. \<open>stored\<close> is \<^verbatim>\<open>Date.now()\<close> at the
  moment the result is put in the cache. A rejected provider call lands in the \<^verbatim>\<open>catch\<close>,
  which returns the fail-open object and stores nothing. A call that resolves is not
  inspected further: whatever result its body gives is stored and returned.
\<close>

definition checkIp_try :: "service \<Rightarrow> int \<Rightarrow> (string \<Rightarrow> provider_reply) \<Rightarrow> draws \<Rightarrow> string \<Rightarrow> lookup" where
  "checkIp_try svc stored provider rnd ip =
     (if has_real_key svc then
        (case provider ip of
           rejected \<Rightarrow> \<lparr>result = fail_open, after = svc, calls = [ip]\<rparr>
         | resolved d \<Rightarrow>
             let r = \<lparr>isVpn = (data_proxy d \<or> data_vpn d \<or> data_tor d),
                      proxy = data_proxy d, vpn = data_vpn d, tor = data_tor d,
                      fraudScore = Some (fraud_score d), country = Some (country_code d),
                      isp = Some (ISP d)\<rparr>
             in \<lparr>result = r,
                 after = svc\<lparr>cache := (cache svc)(ip \<mapsto> \<lparr>timestamp = stored, data = r\<rparr>)\<rparr>,
                 calls = [ip]\<rparr>
         | resolved_without_verdict \<Rightarrow>
             \<lparr>result = undefined_result,
              after = svc\<lparr>cache := (cache svc)(ip \<mapsto> \<lparr>timestamp = stored, data = undefined_result\<rparr>)\<rparr>,
              calls = [ip]\<rparr>)
      else
        let v = (draw_isVpn rnd < 0.05);
            r = \<lparr>isVpn = v,
                 proxy = (v \<and> draw_proxy rnd < 0.5),
                 vpn = (v \<and> draw_vpn rnd < 0.7),
                 tor = (v \<and> draw_tor rnd < 0.2),
                 fraudScore = Some (if v then \<lfloor>draw_score rnd * 50\<rfloor> + 50 else \<lfloor>draw_score rnd * 30\<rfloor>),
                 country = Some ''US'', isp = Some ''Simulated ISP''\<rparr>
        in \<lparr>result = r,
            after = svc\<lparr>cache := (cache svc)(ip \<mapsto> \<lparr>timestamp = stored, data = r\<rparr>)\<rparr>,
            calls = []\<rparr>)"

text \<open>
  \<^verbatim>\<open>checkIp\<close>. \<open>now\<close> is \<^verbatim>\<open>Date.now()\<close> at the cache test. An expired entry is deleted before
  the \<^verbatim>\<open>try\<close> block runs.
\<close>

definition checkIp :: "service \<Rightarrow> int \<Rightarrow> int \<Rightarrow> (string \<Rightarrow> provider_reply) \<Rightarrow> draws \<Rightarrow> string \<Rightarrow> lookup" where
  "checkIp svc now stored provider rnd ip =
     (if \<not> enabled svc then \<lparr>result = fail_open, after = svc, calls = []\<rparr>
      else case cache svc ip of
        None \<Rightarrow> checkIp_try svc stored provider rnd ip
      | Some cachedResult \<Rightarrow>
          if now - timestamp cachedResult < cacheExpiration svc
          then \<lparr>result = data cachedResult, after = svc, calls = []\<rparr>
          else checkIp_try (svc\<lparr>cache := (cache svc)(ip := None)\<rparr>) stored provider rnd ip)"

text \<open>\<^verbatim>\<open>s.startsWith(p)\<close> and \<^verbatim>\<open>ip.replace(/^::ffff:/, '')\<close>.\<close>

definition startsWith :: "string \<Rightarrow> string \<Rightarrow> bool" where
  "startsWith s p = (take (length p) s = p)"

definition replace_ffff :: "string \<Rightarrow> string" where
  "replace_ffff ip = (if startsWith ip ''::ffff:'' then drop (length ''::ffff:'') ip else ip)"

text \<open>The test that lets local addresses through.\<close>

definition is_local :: "string \<Rightarrow> bool" where
  "is_local cleanIp =
     (cleanIp = ''127.0.0.1'' \<or> cleanIp = ''localhost'' \<or>
      startsWith cleanIp ''192.168.'' \<or> startsWith cleanIp ''10.'')"

text \<open>
  \<^verbatim>\<open>req.headers['x-forwarded-for'] || req.headers['x-real-ip'] || req.connection.remoteAddress\<close>:
  the first truthy value, else the last operand, whose evaluation throws when
  \<^verbatim>\<open>req.connection\<close> is undefined.
\<close>

definition client_ip :: "request \<Rightarrow> js_error + string option" where
  "client_ip req =
     (if truthy (x_forwarded_for req) then Inr (x_forwarded_for req)
      else if truthy (x_real_ip req) then Inr (x_real_ip req)
      else case connection req of None \<Rightarrow> Inl TypeError | Some a \<Rightarrow> Inr a)"

definition blocked :: "verdict \<Rightarrow> response" where
  "blocked r = Response 403 (JObj
     [(''error'', JStr ''Acesso bloqueado''),
      (''message'', JStr (''VPN, proxy ou Tor detectado. Por raz'' @ o_tilde @ ''es de seguran'' @ c_cedil
          @ ''a, o acesso ao sistema de enigmas forenses n'' @ a_tilde @ ''o '' @ e_acute
          @ '' permitido atrav'' @ e_acute @ ''s dessas redes.'')),
      (''details'', JObj [(''proxy'', JBool (proxy r)), (''vpn'', JBool (vpn r)), (''tor'', JBool (tor r))])])"

text \<open>
  What one run of the middleware yields: its decision, \<^verbatim>\<open>req.vpnCheck\<close>, the service
  afterwards and the provider calls made.
\<close>

record gate_out =
  decision :: gate
  vpnCheck :: "verdict option"
  service_after :: service
  provider_calls :: "string list"

text \<open>
  The \<^verbatim>\<open>try\<close> block of the middleware. \<^verbatim>\<open>ip.replace\<close> throws when \<^verbatim>\<open>ip\<close> is undefined.
\<close>

definition middleware_try ::
  "service \<Rightarrow> int \<Rightarrow> int \<Rightarrow> (string \<Rightarrow> provider_reply) \<Rightarrow> draws \<Rightarrow> request \<Rightarrow> js_error + gate_out" where
  "middleware_try svc now stored provider rnd req =
     (case client_ip req of
        Inl e \<Rightarrow> Inl e
      | Inr None \<Rightarrow> Inl TypeError
      | Inr (Some ip) \<Rightarrow>
          let cleanIp = replace_ffff ip
          in if is_local cleanIp
             then Inr \<lparr>decision = Next, vpnCheck = None, service_after = svc, provider_calls = []\<rparr>
             else
               let l = checkIp svc now stored provider rnd cleanIp
               in Inr \<lparr>decision = (if isVpn (result l) then Respond (blocked (result l)) else Next),
                       vpnCheck = Some (result l), service_after = after l,
                       provider_calls = calls l\<rparr>)"

text \<open>The \<^verbatim>\<open>catch\<close> of the middleware: on any error, \<^verbatim>\<open>next()\<close>.\<close>

definition middleware ::
  "service \<Rightarrow> int \<Rightarrow> int \<Rightarrow> (string \<Rightarrow> provider_reply) \<Rightarrow> draws \<Rightarrow> request \<Rightarrow> gate_out" where
  "middleware svc now stored provider rnd req =
     (case middleware_try svc now stored provider rnd req of
        Inl e \<Rightarrow> \<lparr>decision = Next, vpnCheck = None, service_after = svc, provider_calls = []\<rparr>
      | Inr out \<Rightarrow> out)"

text \<open>
  The cache test of \<^verbatim>\<open>checkIp\<close> on its own: the address has an entry and
  \<^verbatim>\<open>Date.now() - cachedResult.timestamp < this.cacheExpiration\<close>.
\<close>

definition cache_valid :: "service \<Rightarrow> int \<Rightarrow> string \<Rightarrow> bool" where
  "cache_valid svc now ip =
     (case cache svc ip of None \<Rightarrow> False | Some e \<Rightarrow> now - timestamp e < cacheExpiration svc)"

text \<open>Reading a key of a JSON object, as a client does with the body of a response.\<close>

definition json_field :: "json \<Rightarrow> string \<Rightarrow> json option" where
  "json_field j k = (case j of JObj kvs \<Rightarrow> map_of kvs k | _ \<Rightarrow> None)"

subsection \<open>IPv4 addresses as text\<close>

text \<open>
  The dotted-decimal text of an IPv4 address with octets \<open>a\<close>, \<open>b\<close>, \<open>c\<close>, \<open>d\<close> (each below
  256), which is how Node reports \<^verbatim>\<open>remoteAddress\<close>; used to state which requests come from
  10.0.0.0/8 and 192.168.0.0/16.
\<close>

definition digit :: "nat \<Rightarrow> char" where
  "digit n = ''0123456789'' ! n"

definition octet_text :: "nat \<Rightarrow> string" where
  "octet_text n =
     (if n < 10 then [digit n]
      else if n < 100 then [digit (n div 10), digit (n mod 10)]
      else [digit (n div 100), digit (n div 10 mod 10), digit (n mod 10)])"

definition ipv4_text :: "nat \<Rightarrow> nat \<Rightarrow> nat \<Rightarrow> nat \<Rightarrow> string" where
  "ipv4_text a b c d = octet_text a @ ''.'' @ octet_text b @ ''.'' @ octet_text c @ ''.'' @ octet_text d"

definition private_or_loopback :: "nat \<Rightarrow> nat \<Rightarrow> nat \<Rightarrow> nat \<Rightarrow> bool" where
  "private_or_loopback a b c d =
     ((a = 127 \<and> b = 0 \<and> c = 0 \<and> d = 1) \<or> a = 10 \<or> (a = 192 \<and> b = 168))"

section \<open>Example states\<close>

text \<open>Concrete states and requests on which the properties below are exercised.\<close>

definition empty_db :: database where
  "empty_db = \<lparr>users = [], db_stats = null_stats\<rparr>"

definition server_at :: "int \<Rightarrow> server" where
  "server_at solved = \<lparr>vars = initial_vars\<lparr>solvedEnigmas := solved\<rparr>, db = empty_db\<rparr>"

definition example_user :: user where
  "example_user = \<lparr>user_id = ''u1'', fingerprint = ''f1'', createdAt = 0, lastSeen = 0,
                    enigmaActivated = False, activationTime = None, enigmaSolved = []\<rparr>"

definition registered_server :: server where
  "registered_server = \<lparr>vars = initial_vars, db = \<lparr>users = [(''u1'', example_user)], db_stats = null_stats\<rparr>\<rparr>"

definition request_from :: "string \<Rightarrow> request" where
  "request_from ip = \<lparr>x_forwarded_for = None, x_real_ip = None, connection = Some (Some ip)\<rparr>"

definition no_address :: request where
  "no_address = \<lparr>x_forwarded_for = None, x_real_ip = None, connection = Some None\<rparr>"

definition no_connection :: request where
  "no_connection = \<lparr>x_forwarded_for = None, x_real_ip = None, connection = None\<rparr>"

definition live_service :: service where
  "live_service = constructor (Some ''key'') (Some ''true'')"


definition restarted_server :: server where
  "restarted_server = \<lparr>vars = initial_vars, db = \<lparr>users = [], db_stats = zero_stats\<rparr>\<rparr>"

definition quota_provider :: "string \<Rightarrow> provider_reply" where
  "quota_provider ip = resolved_without_verdict"

definition failing_provider :: "string \<Rightarrow> provider_reply" where
  "failing_provider ip = rejected"

definition vpn_provider :: "string \<Rightarrow> provider_reply" where
  "vpn_provider ip = resolved \<lparr>data_proxy = False, data_vpn = True, data_tor = False,
                                fraud_score = 90, country_code = ''NL'', ISP = ''Example''\<rparr>"

definition all_draws :: "real \<Rightarrow> draws" where
  "all_draws r = \<lparr>draw_isVpn = r, draw_proxy = r, draw_vpn = r, draw_tor = r, draw_score = r\<rparr>"

section \<open>Properties of the server\<close>

subsection \<open>Difficulty\<close>

lemma newDifficulty_range: "newDifficulty n \<in> {1, 2, 3}"
  by (simp add: newDifficulty_def)

text \<open>Both handlers report the difficulty of the solved count they have just incremented.\<close>

lemma solve_enigma_newDifficulty:
  assumes "map_of (users (db s)) userId = Some u"
  shows "fst (snd (solve_enigma None ts s userId level)) =
    Response 200 (JObj [(''success'', JBool True),
      (''newDifficulty'',
         JNum (int (newDifficulty (or0 (stat_solvedEnigmas (or_zero_stats (db_stats (db s)))) + 1))))])"
  using assms by (simp add: solve_enigma_def Let_def txn_solvedEnigmas_def)

lemma enigma_solved_newDifficulty:
  "snd (on_socket s ev_enigma_solved) =
     stats_update ((vars s)\<lparr>solvedEnigmas := solvedEnigmas (vars s) + 1\<rparr>) #
     (if newDifficulty (solvedEnigmas (vars s) + 1) > 1
      then [difficulty_change (newDifficulty (solvedEnigmas (vars s) + 1))] else [])"
  by (simp add: Let_def)

text \<open>
  Claim C1. The difficulty computed from the solved count is 1 below 100, 2 from 100 up to
  999 and 3 from 1000 on, for every count (negative ones included, so in particular for all
  non-negative ones), and it never decreases when the count increases.
\<close>

theorem newDifficulty_tiers:
  "(a < 100 \<longrightarrow> newDifficulty a = 1) \<and>
   (100 \<le> b \<and> b < 1000 \<longrightarrow> newDifficulty b = 2) \<and>
   (1000 \<le> c \<longrightarrow> newDifficulty c = 3) \<and>
   (n \<le> m \<longrightarrow> newDifficulty n \<le> newDifficulty m)"
  by (simp add: newDifficulty_def)

theorem newDifficulty_tiers_witness:
  "(99::int) < 100 \<and> newDifficulty 99 = 1 \<and> (100::int) \<le> 100 \<and> (100::int) < 1000 \<and> newDifficulty 100 = 2 \<and>
   (1000::int) \<le> 1000 \<and> newDifficulty 1000 = 3 \<and> (99::int) \<le> 1000 \<and> newDifficulty 99 \<le> newDifficulty 1000"
  using newDifficulty_tiers [of 99 100 1000 99 1000] by (simp add: newDifficulty_def)

text \<open>
  Claim C2, as the code has it. After an \<^verbatim>\<open>enigma_solved\<close> event a \<^verbatim>\<open>difficulty_change\<close> is
  broadcast exactly when the difficulty of the new solved count is above 1, that is when the
  new count is at least 100, and it carries that difficulty. So the solve that takes the
  count from 99 to 100 broadcasts \<^verbatim>\<open>difficulty_change\<close> with level 2, a solve that leaves the
  count below 100 broadcasts none, and no other event broadcasts one.
\<close>

theorem difficulty_change_iff:
  "(difficulty_change l \<in> set (snd (on_socket s ev_enigma_solved))
      \<longleftrightarrow> l = newDifficulty (solvedEnigmas (vars s) + 1) \<and> 100 \<le> solvedEnigmas (vars s) + 1) \<and>
   (solvedEnigmas (vars s) = 99 \<longrightarrow>
      solvedEnigmas (vars (fst (on_socket s ev_enigma_solved))) = 100 \<and>
      difficulty_change 2 \<in> set (snd (on_socket s ev_enigma_solved))) \<and>
   (solvedEnigmas (vars s) + 1 < 100 \<longrightarrow>
      difficulty_change l \<notin> set (snd (on_socket s ev_enigma_solved))) \<and>
   (e \<noteq> ev_enigma_solved \<longrightarrow> difficulty_change l \<notin> set (snd (on_socket s e)))"
  by (cases e) (auto simp add: Let_def newDifficulty_def)

theorem difficulty_change_iff_witness:
  "solvedEnigmas (vars (server_at 99)) = 99 \<and>
   difficulty_change 2 \<in> set (snd (on_socket (server_at 99) ev_enigma_solved)) \<and>
   solvedEnigmas (vars (server_at 5)) + 1 < 100 \<and>
   difficulty_change 2 \<notin> set (snd (on_socket (server_at 5) ev_enigma_solved)) \<and>
   ev_connection \<noteq> ev_enigma_solved \<and>
   difficulty_change 2 \<notin> set (snd (on_socket (server_at 5) ev_connection))"
proof -
  have a: "solvedEnigmas (vars (server_at 99)) = 99" "solvedEnigmas (vars (server_at 5)) + 1 < 100"
    by (simp_all add: server_at_def)
  from difficulty_change_iff [of 2 "server_at 99" ev_connection]
       difficulty_change_iff [of 2 "server_at 5" ev_connection] a
  show ?thesis by (simp add: newDifficulty_def)
qed

text \<open>
  The claim as it is written fails: the solve that takes the count from 100 to 101 leaves
  the difficulty at 2, and \<^verbatim>\<open>difficulty_change\<close> is broadcast all the same.
\<close>

theorem difficulty_change_without_tier_change:
  "difficulty_change 2 \<in> set (snd (on_socket (server_at 100) ev_enigma_solved)) \<and>
   solvedEnigmas (vars (fst (on_socket (server_at 100) ev_enigma_solved))) = 101 \<and>
   newDifficulty 101 = newDifficulty 100"
  by (simp add: server_at_def initial_vars_def Let_def newDifficulty_def)

subsection \<open>Active users\<close>

lemma fst_run_Cons:
  "fst (run s (e # es)) = fst (run (fst (do_step s e)) es)"
  by (simp split: prod.splits)

lemma fst_run_snoc:
  "fst (run s (es @ [e])) = fst (do_step (fst (run s es)) e)"
proof (induction es arbitrary: s)
  case Nil
  show ?case by (simp split: prod.splits)
next
  case (Cons x xs)
  have "fst (run s ((x # xs) @ [e])) = fst (run (fst (do_step s x)) (xs @ [e]))"
    using fst_run_Cons [of s x "xs @ [e]"] by simp
  also have "\<dots> = fst (do_step (fst (run (fst (do_step s x)) xs)) e)"
    by (rule Cons.IH)
  also have "\<dots> = fst (do_step (fst (run s (x # xs))) e)"
    by (simp only: fst_run_Cons)
  finally show ?case .
qed

lemma activeUsers_on_socket:
  "activeUsers (vars (fst (on_socket s e))) =
     (if e = ev_connection then activeUsers (vars s) + 1
      else if e = ev_disconnect then max 0 (activeUsers (vars s) - 1)
      else activeUsers (vars s))"
  by (cases e) (simp_all add: Let_def)

lemma stat_activeUsers_on_socket:
  "stat_activeUsers (db_stats (db (fst (on_socket s e)))) = stat_activeUsers (db_stats (db s))"
  by (cases e) (simp_all add: Let_def)

text \<open>
  The invariant behind non-negativity: the variable and the persisted \<^verbatim>\<open>activeUsers\<close> (read
  with \<^verbatim>\<open>|| 0\<close>) are both non-negative. A socket event never writes the persisted value, and
  \<^verbatim>\<open>initializeCounters\<close> copies it into the variable.
\<close>

lemma nonneg_do_step:
  assumes "0 \<le> activeUsers (vars s)" "0 \<le> or0 (stat_activeUsers (db_stats (db s)))"
  shows "0 \<le> activeUsers (vars (fst (do_step s e))) \<and>
         0 \<le> or0 (stat_activeUsers (db_stats (db (fst (do_step s e)))))"
proof (cases e)
  case (socket x)
  with assms show ?thesis
    by (simp add: activeUsers_on_socket stat_activeUsers_on_socket)
next
  case (startup f)
  with assms show ?thesis
    by (auto simp add: initializeCounters_def zero_stats_def null_stats_def or0_def)
qed

lemma nonneg_run:
  assumes "0 \<le> activeUsers (vars s)" "0 \<le> or0 (stat_activeUsers (db_stats (db s)))"
  shows "0 \<le> activeUsers (vars (fst (run s es))) \<and>
         0 \<le> or0 (stat_activeUsers (db_stats (db (fst (run s es)))))"
proof (induction es rule: rev_induct)
  case Nil
  from assms show ?case by simp
next
  case (snoc e es)
  then show ?case
    using nonneg_do_step [of "fst (run s es)" e] by (simp add: fst_run_snoc)
qed

lemma activeUsers_exact:
  assumes "\<forall>k \<le> length es. int (count_list (take k es) (socket ev_disconnect))
       \<le> activeUsers (vars s) + int (count_list (take k es) (socket ev_connection))"
    and "\<forall>f. startup f \<notin> set es"
  shows "activeUsers (vars (fst (run s es))) =
     activeUsers (vars s) + int (count_list es (socket ev_connection))
       - int (count_list es (socket ev_disconnect))"
  using assms
proof (induction es rule: rev_induct)
  case Nil
  then show ?case by simp
next
  case (snoc e es)
  have pre: "\<forall>k \<le> length es. int (count_list (take k es) (socket ev_disconnect))
       \<le> activeUsers (vars s) + int (count_list (take k es) (socket ev_connection))"
  proof (intro allI impI)
    fix k assume k: "k \<le> length es"
    then have "k \<le> length (es @ [e])" by simp
    with snoc.prems(1) have "int (count_list (take k (es @ [e])) (socket ev_disconnect))
       \<le> activeUsers (vars s) + int (count_list (take k (es @ [e])) (socket ev_connection))"
      by blast
    with k show "int (count_list (take k es) (socket ev_disconnect))
       \<le> activeUsers (vars s) + int (count_list (take k es) (socket ev_connection))"
      by simp
  qed
  have nost: "\<forall>f. startup f \<notin> set es"
    using snoc.prems(2) by simp
  have whole: "int (count_list (es @ [e]) (socket ev_disconnect))
       \<le> activeUsers (vars s) + int (count_list (es @ [e]) (socket ev_connection))"
    using snoc.prems(1) [rule_format, of "length (es @ [e])"] by simp
  obtain x where e: "e = socket x"
    using snoc.prems(2) by (cases e) auto
  from snoc.IH [OF pre nost] whole show ?case
    by (auto simp add: e fst_run_snoc activeUsers_on_socket split: if_splits)
qed

lemma le_three: "k \<le> length [a, b, c] \<Longrightarrow> k = 0 \<or> k = 1 \<or> k = 2 \<or> k = 3"
  by (simp add: le_Suc_eq) arith

text \<open>
  Claim C7, as the code has it. Take a server whose \<^verbatim>\<open>activeUsers\<close> is 0 and whose persisted
  \<^verbatim>\<open>activeUsers\<close> is absent or not negative, and any sequence \<open>es\<close> of socket events and
  \<^verbatim>\<open>initializeCounters\<close> runs. Then \<^verbatim>\<open>activeUsers\<close> is not negative afterwards. A disconnect
  sets it to \<^verbatim>\<open>max(0, activeUsers - 1)\<close>, so a disconnect arriving at 0 leaves it at 0. And
  when every socket disconnects only after it has connected (no prefix of \<open>es\<close> has more
  disconnects than connections) and \<^verbatim>\<open>initializeCounters\<close> does not run in \<open>es\<close>,
  \<^verbatim>\<open>activeUsers\<close> equals connections minus disconnects, which is then also that difference
  clamped at 0.
\<close>

theorem activeUsers_floor:
  assumes "activeUsers (vars s) = 0" and "0 \<le> or0 (stat_activeUsers (db_stats (db s)))"
  shows "0 \<le> activeUsers (vars (fst (run s es))) \<and>
    activeUsers (vars (fst (on_socket t ev_disconnect))) = max 0 (activeUsers (vars t) - 1) \<and>
    (activeUsers (vars t) = 0 \<longrightarrow> activeUsers (vars (fst (on_socket t ev_disconnect))) = 0) \<and>
    ((\<forall>k \<le> length es. count_list (take k es) (socket ev_disconnect)
          \<le> count_list (take k es) (socket ev_connection)) \<and>
     (\<forall>f. startup f \<notin> set es) \<longrightarrow>
      activeUsers (vars (fst (run s es))) =
        int (count_list es (socket ev_connection)) - int (count_list es (socket ev_disconnect)) \<and>
      activeUsers (vars (fst (run s es))) =
        max 0 (int (count_list es (socket ev_connection)) - int (count_list es (socket ev_disconnect))))"
proof (intro conjI impI)
  show nonneg: "0 \<le> activeUsers (vars (fst (run s es)))"
    using assms nonneg_run [of s es] by simp
  show "activeUsers (vars (fst (on_socket t ev_disconnect))) = max 0 (activeUsers (vars t) - 1)"
    by (simp add: Let_def)
  show "activeUsers (vars (fst (on_socket t ev_disconnect))) = 0" if "activeUsers (vars t) = 0"
    using that by (simp add: Let_def)
  assume h: "(\<forall>k \<le> length es. count_list (take k es) (socket ev_disconnect)
          \<le> count_list (take k es) (socket ev_connection)) \<and>
     (\<forall>f. startup f \<notin> set es)"
  then have h1: "\<forall>k \<le> length es. int (count_list (take k es) (socket ev_disconnect))
       \<le> activeUsers (vars s) + int (count_list (take k es) (socket ev_connection))"
    using assms(1) by simp
  from h have h2: "\<forall>f. startup f \<notin> set es" by simp
  show eq: "activeUsers (vars (fst (run s es))) =
        int (count_list es (socket ev_connection)) - int (count_list es (socket ev_disconnect))"
    using activeUsers_exact [OF h1 h2] assms(1) by simp
  show "activeUsers (vars (fst (run s es))) =
        max 0 (int (count_list es (socket ev_connection)) - int (count_list es (socket ev_disconnect)))"
    using eq nonneg by simp
qed

theorem activeUsers_floor_witness:
  "activeUsers (vars restarted_server) = 0 \<and>
   0 \<le> or0 (stat_activeUsers (db_stats (db restarted_server))) \<and>
   activeUsers (vars (fst (run restarted_server
       [socket ev_connection, socket ev_disconnect, socket ev_connection]))) = 1 \<and>
   0 \<le> activeUsers (vars (fst (run restarted_server
       [socket ev_connection, socket ev_connection, startup None, socket ev_disconnect]))) \<and>
   activeUsers (vars (fst (on_socket restarted_server ev_disconnect))) = 0"
proof -
  let ?es = "[socket ev_connection, socket ev_disconnect, socket ev_connection]"
  have h0: "activeUsers (vars restarted_server) = 0"
    "0 \<le> or0 (stat_activeUsers (db_stats (db restarted_server)))"
    by (simp_all add: restarted_server_def initial_vars_def zero_stats_def or0_def)
  have h1: "\<forall>k \<le> length ?es.
      count_list (take k ?es) (socket ev_disconnect) \<le> count_list (take k ?es) (socket ev_connection)"
  proof (intro allI impI)
    fix k assume "k \<le> length ?es"
    then have "k = 0 \<or> k = 1 \<or> k = 2 \<or> k = 3" by (rule le_three)
    then show "count_list (take k ?es) (socket ev_disconnect) \<le> count_list (take k ?es) (socket ev_connection)"
      by (auto simp add: numeral_2_eq_2 numeral_3_eq_3)
  qed
  have h2: "\<forall>f. startup f \<notin> set ?es" by simp
  from activeUsers_floor [OF h0, of ?es restarted_server] h0 h1 h2
  have a: "activeUsers (vars (fst (run restarted_server ?es))) = 1 \<and>
      activeUsers (vars (fst (on_socket restarted_server ev_disconnect))) = 0"
    by simp
  from activeUsers_floor [OF h0,
      of "[socket ev_connection, socket ev_connection, startup None, socket ev_disconnect]" restarted_server]
  have b: "0 \<le> activeUsers (vars (fst (run restarted_server
       [socket ev_connection, socket ev_connection, startup None, socket ev_disconnect])))"
    by simp
  from h0 a b show ?thesis by simp
qed

text \<open>
  The claim as it is written fails on the equality. A server restarts on a database whose
  \<^verbatim>\<open>stats\<close> node holds zeros; a client connects before the read of \<^verbatim>\<open>initializeCounters\<close>
  completes, and the read then overwrites \<^verbatim>\<open>activeUsers\<close> with 0: one connection, no
  disconnect, and \<^verbatim>\<open>activeUsers\<close> is 0, not 1. When that client leaves, the disconnect
  arrives at 0.
\<close>

theorem activeUsers_overwritten_at_startup:
  "activeUsers (vars restarted_server) = 0 \<and>
   activeUsers (vars (fst (run restarted_server [socket ev_connection, startup None]))) = 0 \<and>
   max 0 (int (count_list [socket ev_connection, startup None] (socket ev_connection))
          - int (count_list [socket ev_connection, startup None] (socket ev_disconnect))) = 1"
  by (simp add: restarted_server_def initial_vars_def Let_def initializeCounters_def
      zero_stats_def null_stats_def or0_def)

subsection \<open>Broadcasts\<close>

lemma api_emit_nothing:
  "snd (snd (api_stats req draw fault s)) = []"
  "snd (snd (api_register_user req draw fault ts s fp uid)) = []"
  "snd (snd (api_activate_enigma req draw fault ts s uid)) = []"
  "snd (snd (api_solve_enigma req draw fault ts s uid level)) = []"
  by (auto simp add: api_stats_def api_register_user_def api_activate_enigma_def api_solve_enigma_def
      gated_def get_stats_def register_user_def activate_enigma_def solve_enigma_def Let_def
      split: gate.splits option.splits prod.splits)

text \<open>
  Claim C3, as the code has it. Every socket event (connection, disconnect,
  \<^verbatim>\<open>enigma_activated\<close>, \<^verbatim>\<open>enigma_solved\<close>) changes a counter and broadcasts the new counters in
  a \<^verbatim>\<open>stats_update\<close>. The four gated HTTP routes broadcast nothing, whatever they do to the
  \<^verbatim>\<open>stats\<close> node of the database.
\<close>

theorem socket_events_broadcast_snapshot:
  "stats_update (vars (fst (on_socket s e))) \<in> set (snd (on_socket s e)) \<and>
   snd (snd (api_stats req draw fault s)) = [] \<and>
   snd (snd (api_register_user req draw fault ts s deviceFingerprint userId)) = [] \<and>
   snd (snd (api_activate_enigma req draw fault ts s userId)) = [] \<and>
   snd (snd (api_solve_enigma req draw fault ts s userId level)) = []"
proof -
  have "stats_update (vars (fst (on_socket s e))) \<in> set (snd (on_socket s e))"
    by (cases e) (simp_all add: Let_def)
  then show ?thesis by (simp only: api_emit_nothing simp_thms)
qed

text \<open>
  The claim as it is written fails on the HTTP path: \<^verbatim>\<open>/api/solve-enigma\<close> for a registered
  user increments \<^verbatim>\<open>solvedEnigmas\<close> in the database, answers 200, and broadcasts nothing.
\<close>

theorem http_solve_without_broadcast:
  "stat_solvedEnigmas (db_stats (db registered_server)) = None \<and>
   stat_solvedEnigmas (db_stats (db (fst (api_solve_enigma (request_from ''203.0.113.5'') (1/2) None 0
       registered_server ''u1'' ''1'')))) = Some 1 \<and>
   fst (snd (api_solve_enigma (request_from ''203.0.113.5'') (1/2) None 0 registered_server ''u1'' ''1''))
     = Response 200 (JObj [(''success'', JBool True), (''newDifficulty'', JNum 1)]) \<and>
   snd (snd (api_solve_enigma (request_from ''203.0.113.5'') (1/2) None 0 registered_server ''u1'' ''1'')) = []"
  by (simp add: api_solve_enigma_def gated_def checkVpn_def checkVpn_try_def truthy_def request_from_def
      solve_enigma_def registered_server_def example_user_def Let_def txn_solvedEnigmas_def
      or_zero_stats_def null_stats_def zero_stats_def or0_def newDifficulty_def)

subsection \<open>Unknown users\<close>

text \<open>
  Claim C8, as the code has it. When \<^verbatim>\<open>/api/solve-enigma\<close> names a user that is not in the
  database, nothing changes (neither the three variables nor the database) and nothing is
  broadcast, for every draw of the gate and every failure of the database read. The answer
  is the 404 response when the gate lets the request through and the read of the user
  succeeds; it is the 403 of the gate when the gate rejects the request, and the 500 of the
  handler when the read of the user fails.
\<close>

theorem solve_unknown_user:
  assumes "map_of (users (db s)) userId = None"
  shows "fst (api_solve_enigma req draw fault ts s userId level) = s \<and>
    snd (snd (api_solve_enigma req draw fault ts s userId level)) = [] \<and>
    (checkVpn req draw = Next \<and> fault \<noteq> Some 1 \<longrightarrow>
       fst (snd (api_solve_enigma req draw fault ts s userId level)) = not_found) \<and>
    status not_found = 404 \<and>
    fst (snd (api_solve_enigma req draw fault ts s userId level)) =
      (case checkVpn req draw of
         Respond r \<Rightarrow> r
       | Next \<Rightarrow> if fault = Some 1 then Response 500 (error_body ''Erro ao resolver enigma'')
                 else not_found) \<and>
    (checkVpn req draw = Respond r \<longrightarrow> status r = 403)"
  using assms
  by (auto simp add: api_solve_enigma_def gated_def solve_enigma_def not_found_def Let_def
      checkVpn_def checkVpn_try_def split: gate.splits if_splits)

theorem solve_unknown_user_witness:
  "map_of (users (db (server_at 7))) ''ghost'' = None \<and>
   checkVpn (request_from ''203.0.113.5'') (1/2) = Next \<and>
   fst (api_solve_enigma (request_from ''203.0.113.5'') (1/2) None 0 (server_at 7) ''ghost'' ''1'') = server_at 7 \<and>
   fst (snd (api_solve_enigma (request_from ''203.0.113.5'') (1/2) None 0 (server_at 7) ''ghost'' ''1'')) = not_found \<and>
   status not_found = 404 \<and>
   checkVpn (request_from ''203.0.113.5'') (1/100) =
     Respond (Response 403 (JObj [(''error'', JStr ''VPN ou Tor detectado. Acesso bloqueado.'')])) \<and>
   fst (api_solve_enigma (request_from ''203.0.113.5'') (1/100) None 0 (server_at 7) ''ghost'' ''1'') = server_at 7 \<and>
   status (fst (snd (api_solve_enigma (request_from ''203.0.113.5'') (1/100) None 0 (server_at 7) ''ghost'' ''1''))) = 403"
proof -
  have h: "map_of (users (db (server_at 7))) ''ghost'' = None"
    by (simp add: server_at_def empty_db_def)
  have g: "checkVpn (request_from ''203.0.113.5'') (1/2) = Next"
    by (simp add: checkVpn_def checkVpn_try_def request_from_def truthy_def)
  have g': "checkVpn (request_from ''203.0.113.5'') (1/100) =
     Respond (Response 403 (JObj [(''error'', JStr ''VPN ou Tor detectado. Acesso bloqueado.'')]))"
    by (simp add: checkVpn_def checkVpn_try_def request_from_def truthy_def)
  from solve_unknown_user [OF h, of "request_from ''203.0.113.5''" "1/2" None 0 "''1''" not_found] h g
  have a: "fst (api_solve_enigma (request_from ''203.0.113.5'') (1/2) None 0 (server_at 7) ''ghost'' ''1'') = server_at 7 \<and>
     fst (snd (api_solve_enigma (request_from ''203.0.113.5'') (1/2) None 0 (server_at 7) ''ghost'' ''1'')) = not_found \<and>
     status not_found = 404"
    by simp
  from solve_unknown_user [OF h, of "request_from ''203.0.113.5''" "1/100" None 0 "''1''"
      "Response 403 (JObj [(''error'', JStr ''VPN ou Tor detectado. Acesso bloqueado.'')])"] g'
  have b: "fst (api_solve_enigma (request_from ''203.0.113.5'') (1/100) None 0 (server_at 7) ''ghost'' ''1'') = server_at 7 \<and>
     status (fst (snd (api_solve_enigma (request_from ''203.0.113.5'') (1/100) None 0 (server_at 7) ''ghost'' ''1''))) = 403"
    by simp
  from h g g' a b show ?thesis by simp
qed

text \<open>
  The claim as it is written fails on the response: the same request is answered 403, not
  404, when the draw of the gate is 0.01. The counters are unchanged then too.
\<close>

theorem solve_unknown_user_rejected_by_gate:
  "map_of (users (db (server_at 7))) ''ghost'' = None \<and>
   api_solve_enigma (request_from ''203.0.113.5'') (1/100) None 0 (server_at 7) ''ghost'' ''1'' =
     (server_at 7, Response 403 (JObj [(''error'', JStr ''VPN ou Tor detectado. Acesso bloqueado.'')]), []) \<and>
   status (Response 403 (JObj [(''error'', JStr ''VPN ou Tor detectado. Acesso bloqueado.'')])) \<noteq> 404"
  by (simp add: server_at_def empty_db_def api_solve_enigma_def gated_def checkVpn_def
      checkVpn_try_def request_from_def truthy_def)

section \<open>Properties of VpnDetectionService and of the gates\<close>

subsection \<open>Local addresses\<close>

lemma replace_ffff_mapped: "replace_ffff (''::ffff:'' @ x) = x"
  by (simp add: replace_ffff_def startsWith_def)

lemma octet_text_values:
  "octet_text 10 = ''10''" "octet_text 127 = ''127''" "octet_text 192 = ''192''"
  "octet_text 168 = ''168''" "octet_text 0 = ''0''" "octet_text (Suc 0) = ''1''"
  by (simp_all add: octet_text_def digit_def)

lemma local_text:
  assumes "private_or_loopback a b c d"
  shows "is_local (ipv4_text a b c d) \<and> replace_ffff (ipv4_text a b c d) = ipv4_text a b c d"
  using assms
  by (auto simp add: private_or_loopback_def ipv4_text_def octet_text_values is_local_def
      startsWith_def replace_ffff_def)

lemma local_clean:
  assumes "private_or_loopback a b c d"
    and "ip = ipv4_text a b c d \<or> ip = ''::ffff:'' @ ipv4_text a b c d"
  shows "is_local (replace_ffff ip)"
  using assms(2)
proof
  assume "ip = ipv4_text a b c d"
  with local_text [OF assms(1)] show ?thesis by simp
next
  assume e: "ip = ''::ffff:'' @ ipv4_text a b c d"
  have "replace_ffff ip = ipv4_text a b c d"
    unfolding e by (rule replace_ffff_mapped)
  with local_text [OF assms(1)] show ?thesis by simp
qed

text \<open>
  Claim C4, as the code has it. For every address that is 127.0.0.1, in 10.0.0.0/8 or in
  192.168.0.0/16, given in dotted-decimal text with or without a leading \<^verbatim>\<open>::ffff:\<close>, the
  middleware of \<^verbatim>\<open>VpnDetectionService\<close> calls \<^verbatim>\<open>next()\<close> whatever the state of the service:
  the cache is neither read nor changed and the provider is not called. The gate mounted on
  the HTTP routes, \<^verbatim>\<open>checkVpn\<close>, does not look at the address: it rejects exactly when its
  draw is below 0.05 (and reading the address did not throw).
\<close>

theorem local_addresses_admitted:
  assumes "private_or_loopback a b c d"
    and "ip = ipv4_text a b c d \<or> ip = ''::ffff:'' @ ipv4_text a b c d"
    and "client_ip req = Inr (Some ip)"
  shows "middleware svc now stored provider rnd req =
      \<lparr>decision = Next, vpnCheck = None, service_after = svc, provider_calls = []\<rparr> \<and>
    ((checkVpn req' draw \<noteq> Next) =
       (draw < 0.05 \<and> (truthy (x_forwarded_for req') \<or> connection req' \<noteq> None)))"
proof
  show "middleware svc now stored provider rnd req =
      \<lparr>decision = Next, vpnCheck = None, service_after = svc, provider_calls = []\<rparr>"
    using local_clean [OF assms(1,2)] assms(3)
    by (simp add: middleware_def middleware_try_def Let_def)
  show "(checkVpn req' draw \<noteq> Next) =
       (draw < 0.05 \<and> (truthy (x_forwarded_for req') \<or> connection req' \<noteq> None))"
    by (auto simp add: checkVpn_def checkVpn_try_def)
qed

theorem local_addresses_admitted_witness:
  "private_or_loopback 10 20 30 40 \<and> ipv4_text 10 20 30 40 = ''10.20.30.40'' \<and>
   client_ip (request_from ''::ffff:10.20.30.40'') = Inr (Some (''::ffff:'' @ ipv4_text 10 20 30 40)) \<and>
   middleware live_service 0 0 vpn_provider (all_draws 0) (request_from ''::ffff:10.20.30.40'') =
      \<lparr>decision = Next, vpnCheck = None, service_after = live_service, provider_calls = []\<rparr>"
proof -
  have h1: "private_or_loopback 10 20 30 40"
    by (simp add: private_or_loopback_def)
  have t: "ipv4_text 10 20 30 40 = ''10.20.30.40''"
    by (simp add: ipv4_text_def octet_text_def digit_def)
  have h2: "''::ffff:10.20.30.40'' = ipv4_text 10 20 30 40 \<or> ''::ffff:10.20.30.40'' = ''::ffff:'' @ ipv4_text 10 20 30 40"
    by (simp add: t)
  have h3: "client_ip (request_from ''::ffff:10.20.30.40'') = Inr (Some ''::ffff:10.20.30.40'')"
    by (simp add: client_ip_def request_from_def truthy_def)
  from local_addresses_admitted [OF h1 h2 h3, of live_service 0 0 vpn_provider "all_draws 0"] h1 t h3
  show ?thesis by simp
qed

text \<open>
  The claim as it is written fails on the gated routes: a request to \<^verbatim>\<open>/api/stats\<close> from
  127.0.0.1 is answered 403 when the draw of \<^verbatim>\<open>checkVpn\<close> is 0.01.
\<close>

theorem gated_endpoint_rejects_loopback:
  "private_or_loopback 127 0 0 1 \<and> ipv4_text 127 0 0 1 = ''127.0.0.1'' \<and>
   api_stats (request_from ''127.0.0.1'') (1/100) None (server_at 0) =
     (server_at 0, Response 403 (JObj [(''error'', JStr ''VPN ou Tor detectado. Acesso bloqueado.'')]), [])"
  by (simp add: private_or_loopback_def ipv4_text_def octet_text_values api_stats_def gated_def
      checkVpn_def checkVpn_try_def request_from_def truthy_def)

subsection \<open>Provider failure\<close>

lemma checkIp_try_rejected:
  assumes "has_real_key svc" "provider ip = rejected"
  shows "checkIp_try svc stored provider rnd ip = \<lparr>result = fail_open, after = svc, calls = [ip]\<rparr>"
  using assms by (simp add: checkIp_try_def)

lemma checkIp_rejected:
  assumes "enabled svc" "has_real_key svc" "\<not> cache_valid svc now ip" "provider ip = rejected"
  shows "checkIp svc now stored provider rnd ip =
    \<lparr>result = fail_open, after = svc\<lparr>cache := (cache svc)(ip := None)\<rparr>, calls = [ip]\<rparr>"
proof (cases "cache svc ip")
  case None
  then have "(cache svc)(ip := None) = cache svc" by (simp add: fun_upd_idem)
  with None assms show ?thesis
    by (simp add: checkIp_def checkIp_try_rejected)
next
  case (Some e)
  have k: "has_real_key (svc\<lparr>cache := (cache svc)(ip := None)\<rparr>)"
    using assms(2) by (simp add: has_real_key_def)
  from Some assms(1,3) checkIp_try_rejected [of "svc\<lparr>cache := (cache svc)(ip := None)\<rparr>" provider ip stored rnd] k assms(4)
  show ?thesis
    by (simp add: checkIp_def cache_valid_def)
qed

lemma checkIp_without_verdict:
  assumes "enabled svc" "has_real_key svc" "\<not> cache_valid svc now ip"
    "provider ip = resolved_without_verdict"
  shows "checkIp svc now stored provider rnd ip =
    \<lparr>result = undefined_result,
     after = svc\<lparr>cache := (cache svc)(ip \<mapsto> \<lparr>timestamp = stored, data = undefined_result\<rparr>)\<rparr>,
     calls = [ip]\<rparr>"
proof (cases "cache svc ip")
  case None
  with assms show ?thesis
    by (simp add: checkIp_def checkIp_try_def)
next
  case (Some e)
  have k: "has_real_key (svc\<lparr>cache := (cache svc)(ip := None)\<rparr>)"
    using assms(2) by (simp add: has_real_key_def)
  from Some assms(1,3,4) k show ?thesis
    by (simp add: checkIp_def cache_valid_def checkIp_try_def)
qed

lemma checkIp_try_calls:
  "has_real_key svc \<Longrightarrow> calls (checkIp_try svc stored provider rnd ip) = [ip]"
  by (simp add: checkIp_try_def Let_def split: provider_reply.splits)

lemma checkIp_miss_calls:
  assumes "enabled svc" "has_real_key svc" "cache svc ip = None"
  shows "calls (checkIp svc now stored provider rnd ip) = [ip]"
  using assms by (simp add: checkIp_def checkIp_try_calls)

text \<open>
  Claim C5, as the code has it. Take a service that is enabled with a real key and an
  address without a valid cache entry, so that the provider is called. When the provider
  call throws, \<^verbatim>\<open>checkIp\<close> returns the fail-open result with \<^verbatim>\<open>isVpn = false\<close>, the provider
  was called once, and afterwards the cache has no entry for the address; so the next
  \<^verbatim>\<open>checkIp\<close> for the address, at any time and whatever the provider then answers, calls the
  provider again, and through the middleware the request is let through. When the call
  resolves with a body that lacks the verdict keys (a quota or malformed body), \<^verbatim>\<open>checkIp\<close>
  does not throw either and its result is not suspicious, but that result is stored like any
  other: a \<^verbatim>\<open>checkIp\<close> for the address within \<^verbatim>\<open>cacheExpiration\<close> of the store returns it
  without calling the provider.
\<close>

theorem provider_failure_fail_open:
  assumes "enabled svc" "has_real_key svc" "\<not> cache_valid svc now ip"
  shows "(provider ip = rejected \<longrightarrow>
      result (checkIp svc now stored provider rnd ip) = fail_open \<and>
      \<not> isVpn (result (checkIp svc now stored provider rnd ip)) \<and>
      calls (checkIp svc now stored provider rnd ip) = [ip] \<and>
      cache (after (checkIp svc now stored provider rnd ip)) ip = None \<and>
      calls (checkIp (after (checkIp svc now stored provider rnd ip)) now' stored' provider' rnd' ip) = [ip] \<and>
      (client_ip req = Inr (Some raw) \<and> replace_ffff raw = ip \<and> \<not> is_local ip \<longrightarrow>
         decision (middleware svc now stored provider rnd req) = Next \<and>
         cache (service_after (middleware svc now stored provider rnd req)) ip = None)) \<and>
    (provider ip = resolved_without_verdict \<longrightarrow>
      \<not> isVpn (result (checkIp svc now stored provider rnd ip)) \<and>
      calls (checkIp svc now stored provider rnd ip) = [ip] \<and>
      cache (after (checkIp svc now stored provider rnd ip)) ip =
        Some \<lparr>timestamp = stored, data = result (checkIp svc now stored provider rnd ip)\<rparr> \<and>
      (now' - stored < cacheExpiration svc \<longrightarrow>
         checkIp (after (checkIp svc now stored provider rnd ip)) now' stored' provider' rnd' ip =
           \<lparr>result = result (checkIp svc now stored provider rnd ip),
            after = after (checkIp svc now stored provider rnd ip), calls = []\<rparr>))"
proof (intro conjI impI)
  let ?svc' = "svc\<lparr>cache := (cache svc)(ip := None)\<rparr>"
  assume rej: "provider ip = rejected"
  have l: "checkIp svc now stored provider rnd ip = \<lparr>result = fail_open, after = ?svc', calls = [ip]\<rparr>"
    using checkIp_rejected [of svc now ip provider stored rnd] assms rej by simp
  show "result (checkIp svc now stored provider rnd ip) = fail_open"
    and "\<not> isVpn (result (checkIp svc now stored provider rnd ip))"
    and "calls (checkIp svc now stored provider rnd ip) = [ip]"
    and "cache (after (checkIp svc now stored provider rnd ip)) ip = None"
    by (simp_all add: l fail_open_def)
  have "calls (checkIp ?svc' now' stored' provider' rnd' ip) = [ip]"
    using assms(1,2) by (intro checkIp_miss_calls) (simp_all add: has_real_key_def)
  then show "calls (checkIp (after (checkIp svc now stored provider rnd ip)) now' stored' provider' rnd' ip) = [ip]"
    by (simp add: l)
  show "decision (middleware svc now stored provider rnd req) = Next"
    and "cache (service_after (middleware svc now stored provider rnd req)) ip = None"
    if "client_ip req = Inr (Some raw) \<and> replace_ffff raw = ip \<and> \<not> is_local ip"
    using that l by (simp_all add: middleware_def middleware_try_def Let_def fail_open_def)
next
  let ?svc' = "svc\<lparr>cache := (cache svc)(ip \<mapsto> \<lparr>timestamp = stored, data = undefined_result\<rparr>)\<rparr>"
  assume res: "provider ip = resolved_without_verdict"
  have l: "checkIp svc now stored provider rnd ip =
      \<lparr>result = undefined_result, after = ?svc', calls = [ip]\<rparr>"
    using checkIp_without_verdict [of svc now ip provider stored rnd] assms res by simp
  show "\<not> isVpn (result (checkIp svc now stored provider rnd ip))"
    and "calls (checkIp svc now stored provider rnd ip) = [ip]"
    and "cache (after (checkIp svc now stored provider rnd ip)) ip =
        Some \<lparr>timestamp = stored, data = result (checkIp svc now stored provider rnd ip)\<rparr>"
    by (simp_all add: l undefined_result_def)
  show "checkIp (after (checkIp svc now stored provider rnd ip)) now' stored' provider' rnd' ip =
           \<lparr>result = result (checkIp svc now stored provider rnd ip),
            after = after (checkIp svc now stored provider rnd ip), calls = []\<rparr>"
    if "now' - stored < cacheExpiration svc"
    unfolding l using that assms(1) by (simp add: checkIp_def)
qed

theorem provider_failure_fail_open_witness:
  "enabled live_service \<and> has_real_key live_service \<and> \<not> cache_valid live_service 0 ''203.0.113.5'' \<and>
   failing_provider ''203.0.113.5'' = rejected \<and>
   checkIp live_service 0 5 failing_provider (all_draws 0) ''203.0.113.5'' =
     \<lparr>result = fail_open, after = live_service, calls = [''203.0.113.5'']\<rparr> \<and>
   calls (checkIp (after (checkIp live_service 0 5 failing_provider (all_draws 0) ''203.0.113.5''))
            1 6 failing_provider (all_draws 0) ''203.0.113.5'') = [''203.0.113.5''] \<and>
   decision (middleware live_service 0 5 failing_provider (all_draws 0) (request_from ''203.0.113.5'')) = Next \<and>
   cache (service_after (middleware live_service 0 5 failing_provider (all_draws 0)
            (request_from ''203.0.113.5''))) ''203.0.113.5'' = None \<and>
   quota_provider ''203.0.113.5'' = resolved_without_verdict \<and>
   6 - 5 < cacheExpiration live_service \<and>
   \<not> isVpn (result (checkIp live_service 0 5 quota_provider (all_draws 0) ''203.0.113.5'')) \<and>
   calls (checkIp (after (checkIp live_service 0 5 quota_provider (all_draws 0) ''203.0.113.5''))
            6 7 quota_provider (all_draws 0) ''203.0.113.5'') = []"
proof -
  have h: "enabled live_service" "has_real_key live_service"
    "\<not> cache_valid live_service 0 ''203.0.113.5''"
    by (simp_all add: live_service_def constructor_def has_real_key_def truthy_def cache_valid_def)
  have p: "failing_provider ''203.0.113.5'' = rejected"
    "quota_provider ''203.0.113.5'' = resolved_without_verdict"
    by (simp_all add: failing_provider_def quota_provider_def)
  have r: "client_ip (request_from ''203.0.113.5'') = Inr (Some ''203.0.113.5'')"
    "replace_ffff ''203.0.113.5'' = ''203.0.113.5''" "\<not> is_local ''203.0.113.5''"
    by (simp_all add: client_ip_def request_from_def truthy_def replace_ffff_def startsWith_def is_local_def)
  have c: "cache live_service = Map.empty" "6 - 5 < cacheExpiration live_service"
    by (simp_all add: live_service_def constructor_def)
  have e: "checkIp live_service 0 5 failing_provider (all_draws 0) ''203.0.113.5'' =
     \<lparr>result = fail_open, after = live_service, calls = [''203.0.113.5'']\<rparr>"
    using h c p by (simp add: checkIp_def checkIp_try_def)
  from provider_failure_fail_open [where svc = live_service and now = 0 and ip = "''203.0.113.5''"
      and provider = failing_provider and stored = 5 and rnd = "all_draws 0" and now' = 1
      and stored' = 6 and provider' = failing_provider and rnd' = "all_draws 0"
      and req = "request_from ''203.0.113.5''" and raw = "''203.0.113.5''"] h p r
  have a: "calls (checkIp (after (checkIp live_service 0 5 failing_provider (all_draws 0) ''203.0.113.5''))
            1 6 failing_provider (all_draws 0) ''203.0.113.5'') = [''203.0.113.5''] \<and>
     decision (middleware live_service 0 5 failing_provider (all_draws 0) (request_from ''203.0.113.5'')) = Next \<and>
     cache (service_after (middleware live_service 0 5 failing_provider (all_draws 0)
            (request_from ''203.0.113.5''))) ''203.0.113.5'' = None"
    by simp
  from provider_failure_fail_open [where svc = live_service and now = 0 and ip = "''203.0.113.5''"
      and provider = quota_provider and stored = 5 and rnd = "all_draws 0" and now' = 6
      and stored' = 7 and provider' = quota_provider and rnd' = "all_draws 0"
      and req = "request_from ''203.0.113.5''" and raw = "''203.0.113.5''"] h p c
  have b: "\<not> isVpn (result (checkIp live_service 0 5 quota_provider (all_draws 0) ''203.0.113.5'')) \<and>
     calls (checkIp (after (checkIp live_service 0 5 quota_provider (all_draws 0) ''203.0.113.5''))
            6 7 quota_provider (all_draws 0) ''203.0.113.5'') = []"
    by simp
  from h p c e a b show ?thesis by simp
qed

text \<open>
  The claim as it is written fails for a failure that does not throw: the provider answers
  200 with its quota body, the result is stored, and a second \<^verbatim>\<open>checkIp\<close> six milliseconds
  later is served from the cache without a provider call.
\<close>

theorem quota_body_is_cached:
  "quota_provider ''203.0.113.5'' = resolved_without_verdict \<and>
   calls (checkIp live_service 0 5 quota_provider (all_draws 0) ''203.0.113.5'') = [''203.0.113.5''] \<and>
   cache (after (checkIp live_service 0 5 quota_provider (all_draws 0) ''203.0.113.5'')) ''203.0.113.5'' =
     Some \<lparr>timestamp = 5, data = undefined_result\<rparr> \<and>
   calls (checkIp (after (checkIp live_service 0 5 quota_provider (all_draws 0) ''203.0.113.5''))
            6 7 quota_provider (all_draws 0) ''203.0.113.5'') = []"
  by (simp add: checkIp_def checkIp_try_def live_service_def constructor_def has_real_key_def
      truthy_def quota_provider_def)

subsection \<open>Cache hits\<close>









subsection \<open>Rejections\<close>

lemma middleware_respond:
  assumes "decision (middleware svc now stored provider rnd req) = Respond r"
  shows "\<exists>v. vpnCheck (middleware svc now stored provider rnd req) = Some v \<and> isVpn v \<and> r = blocked v"
  using assms
  by (auto simp add: middleware_def middleware_try_def Let_def
      split: sum.splits option.splits if_splits)

lemma blocked_shape:
  "status (blocked v) = 403 \<and>
   json_field (body (blocked v)) ''error'' = Some (JStr ''Acesso bloqueado'') \<and>
   json_field (body (blocked v)) ''message'' \<noteq> None \<and>
   json_field (body (blocked v)) ''details'' =
     Some (JObj [(''proxy'', JBool (proxy v)), (''vpn'', JBool (vpn v)), (''tor'', JBool (tor v))])"
  by (simp add: blocked_def json_field_def)

text \<open>
  Claim C9, as the code has it. The middleware of \<^verbatim>\<open>VpnDetectionService\<close> rejects a request
  from a non-local address whose \<^verbatim>\<open>checkIp\<close> result has \<^verbatim>\<open>isVpn\<close> set, and every rejection
  it makes is a 403 whose body has \<^verbatim>\<open>error\<close>, \<^verbatim>\<open>message\<close> and \<^verbatim>\<open>details\<close> with the
  \<^verbatim>\<open>proxy\<close>, \<^verbatim>\<open>vpn\<close> and \<^verbatim>\<open>tor\<close> booleans of that result. Every rejection of \<^verbatim>\<open>checkVpn\<close>,
  the gate mounted on the HTTP routes, is a 403 whose body has the key \<^verbatim>\<open>error\<close> only.
\<close>

theorem rejection_responses:
  "(client_ip req = Inr (Some ip) \<and> \<not> is_local (replace_ffff ip) \<and>
    isVpn (result (checkIp svc now stored provider rnd (replace_ffff ip))) \<longrightarrow>
      decision (middleware svc now stored provider rnd req) =
        Respond (blocked (result (checkIp svc now stored provider rnd (replace_ffff ip))))) \<and>
   (decision (middleware svc now stored provider rnd req) = Respond r \<longrightarrow>
      (\<exists>v. vpnCheck (middleware svc now stored provider rnd req) = Some v \<and> isVpn v \<and>
           status r = 403 \<and>
           json_field (body r) ''error'' = Some (JStr ''Acesso bloqueado'') \<and>
           json_field (body r) ''message'' \<noteq> None \<and>
           json_field (body r) ''details'' =
             Some (JObj [(''proxy'', JBool (proxy v)), (''vpn'', JBool (vpn v)), (''tor'', JBool (tor v))]))) \<and>
   (checkVpn req' draw = Respond r' \<longrightarrow>
      r' = Response 403 (JObj [(''error'', JStr ''VPN ou Tor detectado. Acesso bloqueado.'')]))"
proof (intro conjI impI)
  assume "client_ip req = Inr (Some ip) \<and> \<not> is_local (replace_ffff ip) \<and>
    isVpn (result (checkIp svc now stored provider rnd (replace_ffff ip)))"
  then show "decision (middleware svc now stored provider rnd req) =
        Respond (blocked (result (checkIp svc now stored provider rnd (replace_ffff ip))))"
    by (simp add: middleware_def middleware_try_def Let_def)
next
  assume "decision (middleware svc now stored provider rnd req) = Respond r"
  from middleware_respond [OF this] obtain v where
    "vpnCheck (middleware svc now stored provider rnd req) = Some v" "isVpn v" "r = blocked v"
    by blast
  with blocked_shape [of v]
  show "\<exists>v. vpnCheck (middleware svc now stored provider rnd req) = Some v \<and> isVpn v \<and>
           status r = 403 \<and>
           json_field (body r) ''error'' = Some (JStr ''Acesso bloqueado'') \<and>
           json_field (body r) ''message'' \<noteq> None \<and>
           json_field (body r) ''details'' =
             Some (JObj [(''proxy'', JBool (proxy v)), (''vpn'', JBool (vpn v)), (''tor'', JBool (tor v))])"
    by blast
next
  assume "checkVpn req' draw = Respond r'"
  then show "r' = Response 403 (JObj [(''error'', JStr ''VPN ou Tor detectado. Acesso bloqueado.'')])"
    by (auto simp add: checkVpn_def checkVpn_try_def split: if_splits)
qed

theorem rejection_responses_witness:
  "client_ip (request_from ''203.0.113.5'') = Inr (Some ''203.0.113.5'') \<and>
   \<not> is_local (replace_ffff ''203.0.113.5'') \<and>
   isVpn (result (checkIp live_service 0 5 vpn_provider (all_draws 0) (replace_ffff ''203.0.113.5''))) \<and>
   status (blocked (result (checkIp live_service 0 5 vpn_provider (all_draws 0) (replace_ffff ''203.0.113.5'')))) = 403 \<and>
   json_field (body (blocked (result (checkIp live_service 0 5 vpn_provider (all_draws 0)
        (replace_ffff ''203.0.113.5''))))) ''details'' =
      Some (JObj [(''proxy'', JBool False), (''vpn'', JBool True), (''tor'', JBool False)]) \<and>
   decision (middleware live_service 0 5 vpn_provider (all_draws 0) (request_from ''203.0.113.5'')) =
      Respond (blocked (result (checkIp live_service 0 5 vpn_provider (all_draws 0) (replace_ffff ''203.0.113.5'')))) \<and>
   checkVpn (request_from ''203.0.113.5'') (1/100) =
      Respond (Response 403 (JObj [(''error'', JStr ''VPN ou Tor detectado. Acesso bloqueado.'')]))"
proof -
  have r: "client_ip (request_from ''203.0.113.5'') = Inr (Some ''203.0.113.5'')"
    "replace_ffff ''203.0.113.5'' = ''203.0.113.5''" "\<not> is_local ''203.0.113.5''"
    by (simp_all add: client_ip_def request_from_def truthy_def replace_ffff_def startsWith_def is_local_def)
  have l: "result (checkIp live_service 0 5 vpn_provider (all_draws 0) ''203.0.113.5'') =
      \<lparr>isVpn = True, proxy = False, vpn = True, tor = False, fraudScore = Some 90,
       country = Some ''NL'', isp = Some ''Example''\<rparr>"
    by (simp add: checkIp_def checkIp_try_def live_service_def constructor_def has_real_key_def
        truthy_def vpn_provider_def Let_def)
  have g: "checkVpn (request_from ''203.0.113.5'') (1/100) =
      Respond (Response 403 (JObj [(''error'', JStr ''VPN ou Tor detectado. Acesso bloqueado.'')]))"
    by (simp add: checkVpn_def checkVpn_try_def request_from_def truthy_def)
  have d: "decision (middleware live_service 0 5 vpn_provider (all_draws 0) (request_from ''203.0.113.5'')) =
      Respond (blocked (result (checkIp live_service 0 5 vpn_provider (all_draws 0) ''203.0.113.5'')))"
    using rejection_responses [where req = "request_from ''203.0.113.5''" and ip = "''203.0.113.5''"
      and svc = live_service and now = 0 and stored = 5 and provider = vpn_provider
      and rnd = "all_draws 0" and r = "Response 0 (JBool True)" and req' = no_address
      and draw = 1 and r' = "Response 0 (JBool True)", THEN conjunct1] r l
    by simp
  have s: "status (blocked (result (checkIp live_service 0 5 vpn_provider (all_draws 0) ''203.0.113.5''))) = 403"
    "json_field (body (blocked (result (checkIp live_service 0 5 vpn_provider (all_draws 0)
        ''203.0.113.5'')))) ''details'' =
      Some (JObj [(''proxy'', JBool False), (''vpn'', JBool True), (''tor'', JBool False)])"
    by (simp_all add: l blocked_def json_field_def)
  have i: "isVpn (result (checkIp live_service 0 5 vpn_provider (all_draws 0) ''203.0.113.5''))"
    by (simp add: l)
  show ?thesis
    unfolding r(2) using r(1,3) i s d g by (intro conjI)
qed

text \<open>
  The claim as it is written fails on the gated routes: the 403 of \<^verbatim>\<open>/api/stats\<close> has
  neither \<^verbatim>\<open>message\<close> nor \<^verbatim>\<open>details\<close>.
\<close>

theorem gated_endpoint_rejection_body:
  "fst (snd (api_stats (request_from ''203.0.113.5'') (1/100) None (server_at 0))) =
     Response 403 (JObj [(''error'', JStr ''VPN ou Tor detectado. Acesso bloqueado.'')]) \<and>
   json_field (body (fst (snd (api_stats (request_from ''203.0.113.5'') (1/100) None (server_at 0))))) ''message'' = None \<and>
   json_field (body (fst (snd (api_stats (request_from ''203.0.113.5'') (1/100) None (server_at 0))))) ''details'' = None"
  by (simp add: api_stats_def gated_def checkVpn_def checkVpn_try_def request_from_def truthy_def
      json_field_def)

subsection \<open>Errors inside a gate\<close>

text \<open>
  Claim C10. Whenever the \<^verbatim>\<open>try\<close> block of a gate throws, the gate calls \<^verbatim>\<open>next()\<close>: the
  middleware of \<^verbatim>\<open>VpnDetectionService\<close> leaves the service as it is and calls no provider,
  and \<^verbatim>\<open>checkVpn\<close> lets the request through. In particular a request with no usable address
  (both headers falsy and \<^verbatim>\<open>remoteAddress\<close> or \<^verbatim>\<open>req.connection\<close> undefined) makes the
  middleware throw and is let through, and one with the forwarded header falsy and
  \<^verbatim>\<open>req.connection\<close> undefined makes \<^verbatim>\<open>checkVpn\<close> throw and is let through.
\<close>

theorem gate_errors_admit:
  "(middleware_try svc now stored provider rnd req = Inl e \<longrightarrow>
      middleware svc now stored provider rnd req =
        \<lparr>decision = Next, vpnCheck = None, service_after = svc, provider_calls = []\<rparr>) \<and>
   (checkVpn_try req draw = Inl e \<longrightarrow> checkVpn req draw = Next) \<and>
   (\<not> truthy (x_forwarded_for req') \<and> \<not> truthy (x_real_ip req') \<and>
    (connection req' = None \<or> connection req' = Some None) \<longrightarrow>
      middleware_try svc now stored provider rnd req' = Inl TypeError \<and>
      middleware svc now stored provider rnd req' =
        \<lparr>decision = Next, vpnCheck = None, service_after = svc, provider_calls = []\<rparr>) \<and>
   (\<not> truthy (x_forwarded_for req') \<and> connection req' = None \<longrightarrow>
      checkVpn_try req' draw = Inl TypeError \<and> checkVpn req' draw = Next)"
  by (auto simp add: middleware_def middleware_try_def client_ip_def checkVpn_def checkVpn_try_def)

theorem gate_errors_admit_witness:
  "middleware_try live_service 0 5 vpn_provider (all_draws 0) no_address = Inl TypeError \<and>
   middleware live_service 0 5 vpn_provider (all_draws 0) no_address =
     \<lparr>decision = Next, vpnCheck = None, service_after = live_service, provider_calls = []\<rparr> \<and>
   checkVpn_try no_connection (1/100) = Inl TypeError \<and>
   checkVpn no_connection (1/100) = Next \<and>
   middleware live_service 0 5 vpn_provider (all_draws 0) no_connection =
     \<lparr>decision = Next, vpnCheck = None, service_after = live_service, provider_calls = []\<rparr>"
proof -
  have a: "\<not> truthy (x_forwarded_for no_address)" "\<not> truthy (x_real_ip no_address)"
    "connection no_address = Some None"
    by (simp_all add: no_address_def truthy_def)
  have b: "\<not> truthy (x_forwarded_for no_connection)" "\<not> truthy (x_real_ip no_connection)"
    "connection no_connection = None"
    by (simp_all add: no_connection_def truthy_def)
  have t1: "middleware_try live_service 0 5 vpn_provider (all_draws 0) no_address = Inl TypeError"
    using a by (simp add: middleware_try_def client_ip_def)
  have t2: "checkVpn_try no_connection (1/100) = Inl TypeError"
    using b by (simp add: checkVpn_try_def)
  from gate_errors_admit [where svc = live_service and now = 0 and stored = 5 and provider = vpn_provider
      and rnd = "all_draws 0" and req = no_address and e = TypeError and req' = no_connection
      and draw = "1/100"] a b t1 t2
  show ?thesis by simp
qed

end
